theory Spec2Isabelle
  imports Main "HOL-Library.Word"
begin

unbundle bit_operations_syntax

section \<open>The ARM MHU mailbox driver (drivers/mailbox/arm_mhu.c)\<close>

text \<open>
  The driver is embedded function by function. The C code works on one controller
  (\<open>struct mhu_ctlr\<close>), its channels, two memory-mapped windows and the buffers of its
  clients; the model passes all of that as one record and every driver function returns
  its C return value, the list of effects it performed, in program order, and the new
  state.
\<close>

subsection \<open>Machine types and error numbers\<close>

type_synonym u8 = "8 word"
type_synonym u32 = "32 word"

text \<open>Linux error numbers used by the driver (returned negated).\<close>

definition EINVAL :: int where "EINVAL = 22"
definition EBUSY :: int where "EBUSY = 16"

datatype irqreturn_t = IRQ_NONE | IRQ_HANDLED

subsection \<open>Register map (lines 74-98)\<close>

text \<open>
  The register macros are written \<open>#define RX_OFFSET(chan) ((idx) * 0x20)\<close>: the macro
  ignores its argument and reads the variable \<open>idx\<close> of the function it is expanded in.
  The model passes that captured variable as the first argument and the macro argument
  as the second. Channel indices are C \<open>int\<close>; for the channel indices of the driver no
  product below overflows, so they are computed on \<open>int\<close>.
\<close>

definition RX_OFFSET :: "int \<Rightarrow> int \<Rightarrow> int" where
  "RX_OFFSET idx chan = idx * 0x20"

definition RX_STATUS :: "int \<Rightarrow> int \<Rightarrow> int" where
  "RX_STATUS idx chan = RX_OFFSET idx chan"

definition RX_SET :: "int \<Rightarrow> int \<Rightarrow> int" where
  "RX_SET idx chan = RX_OFFSET idx chan + 0x8"

definition RX_CLEAR :: "int \<Rightarrow> int \<Rightarrow> int" where
  "RX_CLEAR idx chan = RX_OFFSET idx chan + 0x10"

definition TX_OFFSET :: "int \<Rightarrow> int \<Rightarrow> int" where
  "TX_OFFSET idx chan = 0x100 + idx * 0x20"

definition TX_STATUS :: "int \<Rightarrow> int \<Rightarrow> int" where
  "TX_STATUS idx chan = TX_OFFSET idx chan"

definition TX_SET :: "int \<Rightarrow> int \<Rightarrow> int" where
  "TX_SET idx chan = TX_OFFSET idx chan + 0x8"

definition TX_CLEAR :: "int \<Rightarrow> int \<Rightarrow> int" where
  "TX_CLEAR idx chan = TX_OFFSET idx chan + 0x10"

definition PAYLOAD_MAX_SIZE :: int where
  "PAYLOAD_MAX_SIZE = 0x200"

definition PAYLOAD_OFFSET :: int where
  "PAYLOAD_OFFSET = 0x400"

definition RX_PAYLOAD :: "int \<Rightarrow> int" where
  "RX_PAYLOAD chan = chan * PAYLOAD_OFFSET"

definition TX_PAYLOAD :: "int \<Rightarrow> int" where
  "TX_PAYLOAD chan = chan * PAYLOAD_OFFSET + PAYLOAD_MAX_SIZE"

text \<open>
  Modelled from the spec: \<open>CHANNEL_MAX\<close> is defined in arm_mhu.h, which is not among the
  sources. The spec fixes the number of channels at two (low and high priority), as the
  two entries of \<open>channel_names\<close> in \<open>mhu_probe\<close> do.
\<close>

definition CHANNEL_MAX :: int where
  "CHANNEL_MAX = 2"

definition valid_channel :: "int \<Rightarrow> bool" where
  "valid_channel ch = (0 \<le> ch \<and> ch < CHANNEL_MAX)"

text \<open>
  The bytes of one payload slot (a slot holds at most \<open>PAYLOAD_MAX_SIZE\<close> bytes) and the
  bytes of one 32-bit register (\<open>readl\<close> and \<open>writel\<close> access four bytes).
\<close>

definition payload_slot :: "int \<Rightarrow> int set" where
  "payload_slot off = {off ..< off + PAYLOAD_MAX_SIZE}"

definition reg_bytes :: "int \<Rightarrow> int set" where
  "reg_bytes off = {off ..< off + 4}"

subsection \<open>Data model (lines 100-113)\<close>

text \<open>
  Modelled from the spec: \<open>struct mhu_data_buf\<close> is declared in arm_mhu.h, which is not
  among the sources. The record has the fields the driver reads: the command word, and
  an optional buffer with its size for each direction. A pointer is \<open>None\<close> for \<open>NULL\<close>
  and \<open>Some a\<close> for the address \<open>a\<close>; a size is the number of bytes \<open>memcpy\<close> is asked to
  copy.
\<close>

record mhu_data_buf =
  cmd :: u32
  tx_size :: nat
  tx_buf :: "nat option"
  rx_size :: nat
  rx_buf :: "nat option"

text \<open>
  \<open>struct mhu_chan\<close>. The field \<open>data\<close> is a pointer to the client's descriptor
  (\<open>None\<close> for \<open>NULL\<close>); the back pointer \<open>ctlr\<close> is left out, since the state below
  holds exactly one controller.
\<close>

record mhu_chan =
  index :: int
  rx_irq :: int
  data :: "nat option"

text \<open>
  The state of the controller and of what it shares with its environment:
  \<^item> \<open>channels\<close>: the channel structure of each link (\<open>link->con_priv\<close>); a link is named
    by its position in \<open>ctlr->mbox_con.chans\<close>;
  \<^item> \<open>mbox_regs\<close>: the value of each status register, by its byte offset from \<open>mbox_base\<close>;
  \<^item> \<open>payload\<close>: the bytes of the payload window, by their offset from \<open>payload_base\<close>;
  \<^item> \<open>mem\<close>: the bytes of client memory, by address (the buffers \<open>tx_buf\<close> and \<open>rx_buf\<close>
    point into it);
  \<^item> \<open>descs\<close>: the descriptor stored at each address (descriptors are owned by the
    client; the driver only reads them, and they are taken not to overlap the buffers);
  \<^item> \<open>irq_table\<close>: for each interrupt line, the link whose handler is installed on it.
\<close>

record mhu_state =
  channels :: "nat \<Rightarrow> mhu_chan"
  mbox_regs :: "int \<Rightarrow> u32"
  payload :: "int \<Rightarrow> u8"
  mem :: "nat \<Rightarrow> u8"
  descs :: "nat \<Rightarrow> mhu_data_buf"
  irq_table :: "int \<Rightarrow> nat option"

text \<open>
  The effects a driver function performs, recorded in program order: a store to
  \<open>chan->data\<close> of a link, a copy into or out of the payload window, a register write,
  the call \<open>mbox_chan_received_data(link, data)\<close> that hands a descriptor to the client,
  and the two calls into the interrupt subsystem.
\<close>

datatype event =
    Store_data nat "nat option"
  | Copy_to_payload int nat nat
  | Copy_from_payload nat int nat
  | Writel u32 int
  | Received_data nat nat
  | Request_irq int nat
  | Free_irq int nat

subsection \<open>Environment: memory copies, registers, interrupt lines\<close>

text \<open>
  \<open>memcpy(payload + dst, src, n)\<close> and \<open>memcpy(dst, payload + src, n)\<close>: exactly the \<open>n\<close>
  bytes starting at the destination change.
\<close>

definition memcpy_to_payload :: "(int \<Rightarrow> u8) \<Rightarrow> int \<Rightarrow> (nat \<Rightarrow> u8) \<Rightarrow> nat \<Rightarrow> nat \<Rightarrow> (int \<Rightarrow> u8)" where
  "memcpy_to_payload pl dst m src n =
     (\<lambda>a. if dst \<le> a \<and> a < dst + int n then m (src + nat (a - dst)) else pl a)"

definition memcpy_from_payload :: "(nat \<Rightarrow> u8) \<Rightarrow> nat \<Rightarrow> (int \<Rightarrow> u8) \<Rightarrow> int \<Rightarrow> nat \<Rightarrow> (nat \<Rightarrow> u8)" where
  "memcpy_from_payload m dst pl src n =
     (\<lambda>a. if dst \<le> a \<and> a < dst + n then pl (src + int (a - dst)) else m a)"

text \<open>
  Modelled from the spec: the doorbell registers are hardware. Each channel and direction
  has a block of three registers (the table at lines 53-73): reading STAT gives the bits
  that are set; a value written to SET (status + 0x08) sets those bits in STAT; a value
  written to CLEAR (status + 0x10) clears those bits in STAT; any other write changes
  nothing. Blocks are 0x20 bytes apart.
\<close>

definition readl :: "(int \<Rightarrow> u32) \<Rightarrow> int \<Rightarrow> u32" where
  "readl regs off = regs off"

definition writel :: "u32 \<Rightarrow> int \<Rightarrow> (int \<Rightarrow> u32) \<Rightarrow> (int \<Rightarrow> u32)" where
  "writel v off regs =
     (if off mod 0x20 = 0x08 then regs(off - 0x08 := regs (off - 0x08) OR v)
      else if off mod 0x20 = 0x10 then regs(off - 0x10 := regs (off - 0x10) AND NOT v)
      else regs)"

text \<open>
  Modelled from the spec: \<open>request_threaded_irq\<close> and \<open>free_irq\<close> belong to the kernel's
  interrupt subsystem. A line that is already owned cannot be claimed (the driver does
  not ask for a shared line); freeing removes the handler that was installed for the
  link.
\<close>

definition request_threaded_irq :: "int \<Rightarrow> nat \<Rightarrow> (int \<Rightarrow> nat option) \<Rightarrow> int \<times> (int \<Rightarrow> nat option)" where
  "request_threaded_irq irq link tab =
     (case tab irq of None \<Rightarrow> (0, tab(irq := Some link)) | Some _ \<Rightarrow> (- EBUSY, tab))"

definition free_irq :: "int \<Rightarrow> nat \<Rightarrow> (int \<Rightarrow> nat option) \<Rightarrow> (int \<Rightarrow> nat option)" where
  "free_irq irq link tab = (if tab irq = Some link then tab(irq := None) else tab)"

subsection \<open>The channel operations (lines 115-186)\<close>

definition mbox_handler :: "int \<Rightarrow> nat \<Rightarrow> mhu_state \<Rightarrow> irqreturn_t \<times> event list \<times> mhu_state" where
  "mbox_handler irq link s =
     (let chan = channels s link;
          idx = index chan;
          status = readl (mbox_regs s) (RX_STATUS idx idx)
      in if status \<noteq> 0 \<and> irq = rx_irq chan then
           (case data chan of
              None \<Rightarrow> (IRQ_NONE, [], s)
            | Some p \<Rightarrow>
               (let d = descs s p;
                    (ev, s1) =
                      (case rx_buf d of
                         None \<Rightarrow> ([], s)
                       | Some b \<Rightarrow>
                           ([Copy_from_payload b (RX_PAYLOAD idx) (rx_size d)],
                            s\<lparr>mem := memcpy_from_payload (mem s) b (payload s)
                                       (RX_PAYLOAD idx) (rx_size d)\<rparr>));
                    s2 = s1\<lparr>channels := (channels s1)(link := chan\<lparr>data := None\<rparr>)\<rparr>;
                    s3 = s2\<lparr>mbox_regs := writel (- 1) (RX_CLEAR idx idx) (mbox_regs s2)\<rparr>
                in (IRQ_HANDLED,
                    ev @ [Store_data link None, Received_data link p,
                          Writel (- 1) (RX_CLEAR idx idx)],
                    s3)))
         else (IRQ_HANDLED, [], s))"

definition mhu_send_data :: "nat \<Rightarrow> nat option \<Rightarrow> mhu_state \<Rightarrow> int \<times> event list \<times> mhu_state" where
  "mhu_send_data link msg s =
     (let chan = channels s link;
          idx = index chan
      in case msg of
           None \<Rightarrow> (- EINVAL, [], s)
         | Some p \<Rightarrow>
            (let d = descs s p;
                 s1 = s\<lparr>channels := (channels s)(link := chan\<lparr>data := Some p\<rparr>)\<rparr>;
                 (ev, s2) =
                   (case tx_buf d of
                      None \<Rightarrow> ([], s1)
                    | Some b \<Rightarrow>
                        ([Copy_to_payload (TX_PAYLOAD idx) b (tx_size d)],
                         s1\<lparr>payload := memcpy_to_payload (payload s1) (TX_PAYLOAD idx)
                                          (mem s1) b (tx_size d)\<rparr>));
                 s3 = s2\<lparr>mbox_regs := writel (cmd d) (TX_SET idx idx) (mbox_regs s2)\<rparr>
             in (0, Store_data link (Some p) # ev @ [Writel (cmd d) (TX_SET idx idx)], s3)))"

definition mhu_startup :: "nat \<Rightarrow> mhu_state \<Rightarrow> int \<times> event list \<times> mhu_state" where
  "mhu_startup link s =
     (let chan = channels s link;
          mbox_irq = rx_irq chan;
          (err, tab) = request_threaded_irq mbox_irq link (irq_table s)
      in (err, [Request_irq mbox_irq link], s\<lparr>irq_table := tab\<rparr>))"

definition mhu_shutdown :: "nat \<Rightarrow> mhu_state \<Rightarrow> event list \<times> mhu_state" where
  "mhu_shutdown link s =
     (let chan = channels s link;
          s1 = s\<lparr>channels := (channels s)(link := chan\<lparr>data := None\<rparr>)\<rparr>
      in ([Store_data link None, Free_irq (rx_irq chan) link],
          s1\<lparr>irq_table := free_irq (rx_irq chan) link (irq_table s1)\<rparr>))"

definition mhu_last_tx_done :: "nat \<Rightarrow> mhu_state \<Rightarrow> bool" where
  "mhu_last_tx_done link s =
     (let chan = channels s link;
          idx = index chan
      in readl (mbox_regs s) (TX_STATUS idx idx) = 0)"

text \<open>
  The three components of what a driver function returns: its C return value, the
  effects it performed, and the state it leaves.
\<close>

definition result :: "'r \<times> event list \<times> mhu_state \<Rightarrow> 'r" where
  "result x = fst x"

definition effects :: "'r \<times> event list \<times> mhu_state \<Rightarrow> event list" where
  "effects x = fst (snd x)"

definition after :: "'r \<times> event list \<times> mhu_state \<Rightarrow> mhu_state" where
  "after x = snd (snd x)"

subsection \<open>Construction and the peer\<close>

text \<open>
  A channel as \<open>mhu_probe\<close> constructs it (lines 208 and 253-264): the controller is
  allocated zeroed, so \<open>data\<close> is \<open>NULL\<close>, and the loop sets \<open>index\<close> and \<open>rx_irq\<close>.
\<close>

definition probe_chan :: "int \<Rightarrow> int \<Rightarrow> mhu_chan" where
  "probe_chan idx irq = \<lparr>index = idx, rx_irq = irq, data = None\<rparr>"

text \<open>
  Modelled from the spec: the peer processor acknowledges a transmission on channel \<open>ch\<close>
  by clearing bits of the transmit status register, that is, by a write of the bits to
  the CLEAR register of the channel's transmit block.
\<close>

definition peer_clear_tx :: "int \<Rightarrow> u32 \<Rightarrow> mhu_state \<Rightarrow> mhu_state" where
  "peer_clear_tx ch v s = s\<lparr>mbox_regs := writel v (TX_CLEAR ch ch) (mbox_regs s)\<rparr>"

subsection \<open>Sequences of operations\<close>

text \<open>
  The calls that reach a channel: the four channel operations of \<open>mhu_ops\<close> and the
  interrupt handler. \<open>run_op\<close> gives the effects of one call and the state it leaves.
\<close>

datatype operation =
    Send nat "nat option"
  | Interrupt int nat
  | Start nat
  | Stop nat
  | LastTransmitDone nat

fun run_op :: "operation \<Rightarrow> mhu_state \<Rightarrow> event list \<times> mhu_state" where
  "run_op (Send link msg) s = snd (mhu_send_data link msg s)"
| "run_op (Interrupt irq link) s = snd (mbox_handler irq link s)"
| "run_op (Start link) s = snd (mhu_startup link s)"
| "run_op (Stop link) s = mhu_shutdown link s"
| "run_op (LastTransmitDone link) s = ([], s)"

fun run :: "operation list \<Rightarrow> mhu_state \<Rightarrow> mhu_state" where
  "run [] s = s"
| "run (op # ops) s = run ops (snd (run_op op s))"

text \<open>The slot the spec calls \<open>pending_receive\<close> is the field \<open>chan->data\<close>.\<close>

definition pending_receive :: "mhu_state \<Rightarrow> nat \<Rightarrow> nat option" where
  "pending_receive s link = data (channels s link)"

subsection \<open>Example configurations\<close>

text \<open>
  A controller with its channels as constructed (link \<open>k\<close> has index \<open>k\<close> and interrupt
  line \<open>32 + k\<close>), all status registers zero, the bytes DE AD BE EF in the receive slot of
  channel 0, and three client descriptors: at address 1 a message with a 4-byte payload
  and a 4-byte reply buffer, at address 2 a notification with command word 0 and no
  buffers, and at address 3 a message whose payload size 0x201 exceeds the slot.
\<close>

definition ex_descs :: "nat \<Rightarrow> mhu_data_buf" where
  "ex_descs a =
     (if a = 2 then \<lparr>cmd = 0, tx_size = 0, tx_buf = None, rx_size = 0, rx_buf = None\<rparr>
      else if a = 3 then \<lparr>cmd = 1, tx_size = 0x201, tx_buf = Some 0x1000, rx_size = 0, rx_buf = None\<rparr>
      else \<lparr>cmd = 5, tx_size = 4, tx_buf = Some 0x1000, rx_size = 4, rx_buf = Some 0x2000\<rparr>)"

definition ex_mem :: "nat \<Rightarrow> u8" where
  "ex_mem a = (if a = 0x1000 then 0x11 else if a = 0x1001 then 0x22
               else if a = 0x1002 then 0x33 else if a = 0x1003 then 0x44
               else if a = 0x1200 then 0x55 else 0)"

definition ex_payload :: "int \<Rightarrow> u8" where
  "ex_payload a = (if a = 0 then 0xDE else if a = 1 then 0xAD
                   else if a = 2 then 0xBE else if a = 3 then 0xEF else 0)"

definition ex_state :: mhu_state where
  "ex_state = \<lparr>channels = (\<lambda>k. probe_chan (int k) (32 + int k)),
                mbox_regs = (\<lambda>_. 0), payload = ex_payload, mem = ex_mem,
                descs = ex_descs, irq_table = (\<lambda>_. None)\<rparr>"

text \<open>
  The same controller with channel 0 started, the descriptor at address 1 pending on it,
  and the receive doorbell of channel 0 rung by the peer.
\<close>

definition ex_armed :: mhu_state where
  "ex_armed = ex_state\<lparr>channels := (channels ex_state)(0 := probe_chan 0 32\<lparr>data := Some 1\<rparr>),
                        mbox_regs := (\<lambda>_. 0)(0 := 1),
                        irq_table := (\<lambda>_. None)(32 := Some 0)\<rparr>"

text \<open>The constructed controller with only the receive doorbell of channel 0 rung.\<close>

definition ex_rung :: mhu_state where
  "ex_rung = ex_state\<lparr>mbox_regs := (\<lambda>_. 0)(0 := 1)\<rparr>"

text \<open>
  The registers of one channel in each direction, as sets of byte offsets in the control
  window. The macros are used as the driver uses them, with the channel's index both as
  the captured variable and as the argument.
\<close>

definition rx_block :: "int \<Rightarrow> int set" where
  "rx_block ch = reg_bytes (RX_STATUS ch ch) \<union> reg_bytes (RX_SET ch ch) \<union> reg_bytes (RX_CLEAR ch ch)"

definition tx_block :: "int \<Rightarrow> int set" where
  "tx_block ch = reg_bytes (TX_STATUS ch ch) \<union> reg_bytes (TX_SET ch ch) \<union> reg_bytes (TX_CLEAR ch ch)"

section \<open>Register map: the layout of the two windows\<close>

lemma valid_channel_cases: "valid_channel ch \<Longrightarrow> ch = 0 \<or> ch = 1"
  by (auto simp: valid_channel_def CHANNEL_MAX_def)

lemmas payload_defs = RX_PAYLOAD_def TX_PAYLOAD_def PAYLOAD_OFFSET_def PAYLOAD_MAX_SIZE_def

lemmas reg_defs = RX_OFFSET_def RX_STATUS_def RX_SET_def RX_CLEAR_def
  TX_OFFSET_def TX_STATUS_def TX_SET_def TX_CLEAR_def

text \<open>
  C7: for valid channel indices the receive slot of channel \<open>ch\<close> is at \<open>ch * 0x400\<close> and
  its transmit slot at \<open>ch * 0x400 + 0x200\<close>; the receive slot, of the maximum payload
  size 0x200, ends where the transmit slot begins or before; and the slots of two
  distinct channels share no byte.
\<close>

theorem payload_layout:
  assumes "valid_channel ch" and "valid_channel ch'"
  shows "RX_PAYLOAD ch = ch * 0x400 \<and> TX_PAYLOAD ch = ch * 0x400 + 0x200
    \<and> PAYLOAD_MAX_SIZE = 0x200
    \<and> RX_PAYLOAD ch + PAYLOAD_MAX_SIZE \<le> TX_PAYLOAD ch
    \<and> payload_slot (RX_PAYLOAD ch) \<inter> payload_slot (TX_PAYLOAD ch) = {}
    \<and> (ch \<noteq> ch' \<longrightarrow>
         (payload_slot (RX_PAYLOAD ch) \<union> payload_slot (TX_PAYLOAD ch))
         \<inter> (payload_slot (RX_PAYLOAD ch') \<union> payload_slot (TX_PAYLOAD ch')) = {})"
proof -
  from assms have "0 \<le> ch" "0 \<le> ch'"
    by (simp_all add: valid_channel_def)
  then show ?thesis
    by (auto simp: payload_defs payload_slot_def)
qed

theorem payload_layout_witness:
  "valid_channel 0 \<and> valid_channel 1
    \<and> RX_PAYLOAD 0 = 0 \<and> TX_PAYLOAD 0 = 0x200
    \<and> RX_PAYLOAD 0 + PAYLOAD_MAX_SIZE \<le> TX_PAYLOAD 0
    \<and> (payload_slot (RX_PAYLOAD 0) \<union> payload_slot (TX_PAYLOAD 0))
         \<inter> (payload_slot (RX_PAYLOAD 1) \<union> payload_slot (TX_PAYLOAD 1)) = {}"
proof -
  have v: "valid_channel 0" "valid_channel 1"
    by (simp_all add: valid_channel_def CHANNEL_MAX_def)
  from payload_layout [OF v] v show ?thesis
    by (simp add: payload_defs payload_slot_def)
qed

text \<open>
  C8: for a valid channel index \<open>ch\<close> the receive status register is at \<open>0x20 * ch\<close>, the
  transmit status register at \<open>0x100 + 0x20 * ch\<close>, and in each direction the set register
  is at status + 0x08 and the clear register at status + 0x10. The receive registers of
  the two channels lie below 0x100, where the transmit block starts, so no receive
  register shares a byte with a transmit register.
\<close>

theorem control_layout:
  assumes "valid_channel ch" and "valid_channel ch'"
  shows "RX_STATUS ch ch = 0x20 * ch \<and> TX_STATUS ch ch = 0x100 + 0x20 * ch
    \<and> RX_SET ch ch = RX_STATUS ch ch + 0x08 \<and> RX_CLEAR ch ch = RX_STATUS ch ch + 0x10
    \<and> TX_SET ch ch = TX_STATUS ch ch + 0x08 \<and> TX_CLEAR ch ch = TX_STATUS ch ch + 0x10
    \<and> RX_STATUS 0 0 = 0 \<and> TX_STATUS 0 0 = 0x100
    \<and> rx_block ch \<subseteq> {0 ..< 0x100} \<and> tx_block ch' \<subseteq> {0x100 ..< 0x200}
    \<and> rx_block ch \<inter> tx_block ch' = {}"
proof -
  from assms have "ch = 0 \<or> ch = 1" "ch' = 0 \<or> ch' = 1"
    by (simp_all add: valid_channel_cases)
  then show ?thesis
    by (auto simp: reg_defs rx_block_def tx_block_def reg_bytes_def)
qed

theorem control_layout_witness:
  "valid_channel 1 \<and> valid_channel 0
    \<and> RX_STATUS 1 1 = 0x20 \<and> RX_SET 1 1 = 0x28 \<and> RX_CLEAR 1 1 = 0x30
    \<and> TX_STATUS 1 1 = 0x120 \<and> TX_SET 1 1 = 0x128 \<and> TX_CLEAR 1 1 = 0x130
    \<and> rx_block 1 \<inter> tx_block 0 = {}"
proof -
  have v: "valid_channel 1" "valid_channel 0"
    by (simp_all add: valid_channel_def CHANNEL_MAX_def)
  from control_layout [OF v] v show ?thesis
    by (simp add: reg_defs rx_block_def tx_block_def reg_bytes_def)
qed

section \<open>The channel operations, equation by equation\<close>

text \<open>
  What a register write does to a status register that is read afterwards, and each
  driver function as one equation per path through it.
\<close>

lemma writel_set_status: "readl (writel v (TX_SET idx ch) regs) (TX_STATUS idx ch') = readl regs (TX_STATUS idx ch') OR v"
  by (simp add: writel_def readl_def reg_defs)

lemma writel_rx_clear_status: "readl (writel v (RX_CLEAR idx ch) regs) (RX_STATUS idx ch') = readl regs (RX_STATUS idx ch') AND NOT v"
  by (simp add: writel_def readl_def reg_defs)

lemma writel_tx_clear_status: "readl (writel v (TX_CLEAR idx ch) regs) (TX_STATUS idx ch') = readl regs (TX_STATUS idx ch') AND NOT v"
  by (simp add: writel_def readl_def reg_defs)

lemma mhu_send_data_None: "mhu_send_data link None s = (- EINVAL, [], s)"
  by (simp add: mhu_send_data_def)

lemma mhu_send_data_Some:
  "mhu_send_data link (Some p) s =
     (0,
      Store_data link (Some p)
        # (case tx_buf (descs s p) of None \<Rightarrow> []
           | Some b \<Rightarrow> [Copy_to_payload (TX_PAYLOAD (index (channels s link))) b (tx_size (descs s p))])
        @ [Writel (cmd (descs s p)) (TX_SET (index (channels s link)) (index (channels s link)))],
      s\<lparr>channels := (channels s)(link := (channels s link)\<lparr>data := Some p\<rparr>),
        payload := (case tx_buf (descs s p) of None \<Rightarrow> payload s
                    | Some b \<Rightarrow> memcpy_to_payload (payload s) (TX_PAYLOAD (index (channels s link)))
                                 (mem s) b (tx_size (descs s p))),
        mbox_regs := writel (cmd (descs s p))
                       (TX_SET (index (channels s link)) (index (channels s link))) (mbox_regs s)\<rparr>)"
  by (simp add: mhu_send_data_def Let_def split: option.split)

lemma mbox_handler_Some:
  assumes "data (channels s link) = Some p"
    and "readl (mbox_regs s) (RX_STATUS (index (channels s link)) (index (channels s link))) \<noteq> 0"
    and "irq = rx_irq (channels s link)"
  shows "mbox_handler irq link s =
     (IRQ_HANDLED,
      (case rx_buf (descs s p) of None \<Rightarrow> []
       | Some b \<Rightarrow> [Copy_from_payload b (RX_PAYLOAD (index (channels s link))) (rx_size (descs s p))])
        @ [Store_data link None, Received_data link p,
           Writel (- 1) (RX_CLEAR (index (channels s link)) (index (channels s link)))],
      s\<lparr>mem := (case rx_buf (descs s p) of None \<Rightarrow> mem s
                | Some b \<Rightarrow> memcpy_from_payload (mem s) b (payload s)
                             (RX_PAYLOAD (index (channels s link))) (rx_size (descs s p))),
        channels := (channels s)(link := (channels s link)\<lparr>data := None\<rparr>),
        mbox_regs := writel (- 1)
                       (RX_CLEAR (index (channels s link)) (index (channels s link))) (mbox_regs s)\<rparr>)"
  using assms by (simp add: mbox_handler_def Let_def split: option.split)

lemma mbox_handler_None:
  assumes "data (channels s link) = None"
  shows "mbox_handler irq link s =
     (if readl (mbox_regs s) (RX_STATUS (index (channels s link)) (index (channels s link))) \<noteq> 0
         \<and> irq = rx_irq (channels s link)
      then IRQ_NONE else IRQ_HANDLED, [], s)"
  using assms by (simp add: mbox_handler_def Let_def)

lemma mbox_handler_other:
  assumes "readl (mbox_regs s) (RX_STATUS (index (channels s link)) (index (channels s link))) = 0
         \<or> irq \<noteq> rx_irq (channels s link)"
  shows "mbox_handler irq link s = (IRQ_HANDLED, [], s)"
  using assms by (auto simp add: mbox_handler_def Let_def)

lemma memcpy_to_payload_inside:
  "i < n \<Longrightarrow> memcpy_to_payload pl dst m src n (dst + int i) = m (src + i)"
  by (simp add: memcpy_to_payload_def)

lemma memcpy_to_payload_outside:
  "a \<notin> {dst ..< dst + int n} \<Longrightarrow> memcpy_to_payload pl dst m src n a = pl a"
  by (auto simp: memcpy_to_payload_def)

lemma memcpy_from_payload_inside:
  "i < n \<Longrightarrow> memcpy_from_payload m dst pl src n (dst + i) = pl (src + int i)"
  by (simp add: memcpy_from_payload_def)

lemma memcpy_from_payload_outside:
  "a \<notin> {dst ..< dst + n} \<Longrightarrow> memcpy_from_payload m dst pl src n a = m a"
  by (auto simp: memcpy_from_payload_def)

lemmas outcome_defs = result_def effects_def after_def


text \<open>
  Start and Stop as equations, the poll as a register read, and what each operation does
  to the pending slot of any link.
\<close>

lemma mhu_startup_eq:
  "mhu_startup link s =
     (case irq_table s (rx_irq (channels s link)) of
        None \<Rightarrow> (0, [Request_irq (rx_irq (channels s link)) link],
                 s\<lparr>irq_table := (irq_table s)(rx_irq (channels s link) := Some link)\<rparr>)
      | Some other \<Rightarrow> (- EBUSY, [Request_irq (rx_irq (channels s link)) link], s))"
  by (simp add: mhu_startup_def request_threaded_irq_def Let_def split: option.split)

lemma mhu_shutdown_eq:
  "mhu_shutdown link s =
     ([Store_data link None, Free_irq (rx_irq (channels s link)) link],
      s\<lparr>channels := (channels s)(link := (channels s link)\<lparr>data := None\<rparr>),
        irq_table := free_irq (rx_irq (channels s link)) link (irq_table s)\<rparr>)"
  by (simp add: mhu_shutdown_def Let_def)

lemma mhu_last_tx_done_eq:
  "mhu_last_tx_done link s
     \<longleftrightarrow> readl (mbox_regs s) (TX_STATUS (index (channels s link)) (index (channels s link))) = 0"
  by (simp add: mhu_last_tx_done_def Let_def)

lemma last_tx_done_after_send:
  "mhu_last_tx_done link (after (mhu_send_data link (Some p) s))
     \<longleftrightarrow> readl (mbox_regs s) (TX_STATUS (index (channels s link)) (index (channels s link))) = 0
         \<and> cmd (descs s p) = 0"
  by (simp add: mhu_last_tx_done_eq mhu_send_data_Some after_def writel_set_status or_eq_0_iff)

lemma last_tx_done_after_peer_clear:
  "mhu_last_tx_done link (peer_clear_tx (index (channels s link)) v s)
     \<longleftrightarrow> readl (mbox_regs s) (TX_STATUS (index (channels s link)) (index (channels s link)))
           AND NOT v = 0"
  by (simp add: mhu_last_tx_done_eq peer_clear_tx_def writel_tx_clear_status)

lemma pending_after_send:
  "pending_receive (after (mhu_send_data link msg s)) k
     = (if k = link \<and> msg \<noteq> None then msg else pending_receive s k)"
  by (cases msg) (simp_all add: mhu_send_data_None mhu_send_data_Some after_def pending_receive_def)

lemma pending_after_handler:
  "pending_receive (after (mbox_handler irq link s)) k
     = (if k = link \<and> irq = rx_irq (channels s link)
          \<and> readl (mbox_regs s) (RX_STATUS (index (channels s link)) (index (channels s link))) \<noteq> 0
        then None else pending_receive s k)"
proof (cases "irq = rx_irq (channels s link)
    \<and> readl (mbox_regs s) (RX_STATUS (index (channels s link)) (index (channels s link))) \<noteq> 0")
  case False
  then show ?thesis
    by (auto simp: mbox_handler_other after_def)
next
  case True
  show ?thesis
  proof (cases "data (channels s link)")
    case None
    then show ?thesis
      by (simp add: mbox_handler_None after_def pending_receive_def)
  next
    case (Some p)
    with True show ?thesis
      by (simp add: mbox_handler_Some after_def pending_receive_def)
  qed
qed

lemma pending_after_startup:
  "pending_receive (after (mhu_startup link s)) k = pending_receive s k"
  by (simp add: mhu_startup_eq after_def pending_receive_def split: option.split)

lemma pending_after_shutdown:
  "pending_receive (snd (mhu_shutdown link s)) k = (if k = link then None else pending_receive s k)"
  by (simp add: mhu_shutdown_eq pending_receive_def)

lemma pending_after_op:
  "pending_receive (snd (run_op op s)) k =
     (case op of
        Send link msg \<Rightarrow> if k = link \<and> msg \<noteq> None then msg else pending_receive s k
      | Interrupt irq link \<Rightarrow>
          if k = link \<and> irq = rx_irq (channels s link)
            \<and> readl (mbox_regs s) (RX_STATUS (index (channels s link)) (index (channels s link))) \<noteq> 0
          then None else pending_receive s k
      | Start link \<Rightarrow> pending_receive s k
      | Stop link \<Rightarrow> if k = link then None else pending_receive s k
      | LastTransmitDone link \<Rightarrow> pending_receive s k)"
  using pending_after_send [of link msg s k for link msg]
    pending_after_handler [of irq link s k for irq link]
    pending_after_startup [of link s k for link]
  by (cases op) (simp_all add: after_def pending_after_shutdown)

lemma pending_set_by_send:
  assumes "pending_receive s k = None" and "pending_receive (snd (run_op op s)) k \<noteq> None"
  shows "\<exists>p. op = Send k (Some p) \<and> pending_receive (snd (run_op op s)) k = Some p"
  using assms(2) unfolding pending_after_op
  by (cases op) (auto simp: assms(1) split: if_splits)

lemma pending_cleared_by:
  assumes "pending_receive s k = Some p" and "pending_receive (snd (run_op op s)) k = None"
  shows "op = Stop k \<and> fst (run_op op s) = [Store_data k None, Free_irq (rx_irq (channels s k)) k]
    \<or> op = Interrupt (rx_irq (channels s k)) k
      \<and> readl (mbox_regs s) (RX_STATUS (index (channels s k)) (index (channels s k))) \<noteq> 0
      \<and> fst (run_op op s)
          = (case rx_buf (descs s p) of None \<Rightarrow> []
             | Some b \<Rightarrow> [Copy_from_payload b (RX_PAYLOAD (index (channels s k))) (rx_size (descs s p))])
            @ [Store_data k None, Received_data k p,
               Writel (- 1) (RX_CLEAR (index (channels s k)) (index (channels s k)))]"
proof (cases op)
  case (Send link msg)
  with assms show ?thesis
    unfolding pending_after_op by (auto split: if_splits)
next
  case (Interrupt irq link)
  with assms have *: "link = k" "irq = rx_irq (channels s k)"
    "readl (mbox_regs s) (RX_STATUS (index (channels s k)) (index (channels s k))) \<noteq> 0"
    unfolding pending_after_op by (auto split: if_splits)
  from assms(1) have "data (channels s k) = Some p"
    by (simp add: pending_receive_def)
  from mbox_handler_Some [OF this *(3) *(2)] show ?thesis
    by (simp add: Interrupt *)
next
  case (Start link)
  with assms show ?thesis
    unfolding pending_after_op by simp
next
  case (Stop link)
  with assms have "link = k"
    unfolding pending_after_op by (auto split: if_splits)
  with Stop show ?thesis
    by (simp add: mhu_shutdown_eq)
next
  case (LastTransmitDone link)
  with assms show ?thesis
    unfolding pending_after_op by simp
qed

lemma pending_changed_by:
  assumes "pending_receive (snd (run_op op s)) k \<noteq> pending_receive s k"
  shows "(\<exists>p. op = Send k (Some p)) \<or> op = Stop k \<or> (\<exists>irq. op = Interrupt irq k)"
  using assms unfolding pending_after_op
  by (cases op) (auto split: if_splits)

lemma run_append: "run (xs @ ys) s = run ys (run xs s)"
  by (induction xs arbitrary: s) simp_all

lemma run_take_Suc:
  "i < length ops \<Longrightarrow> run (take (Suc i) ops) s = snd (run_op (ops ! i) (run (take i ops) s))"
  by (simp add: take_Suc_conv_app_nth run_append)

section \<open>Send\<close>

text \<open>
  C5: for a descriptor (not \<open>NULL\<close>) with a payload buffer and a payload size of at most
  0x200, Send returns 0 after, in this order, storing the descriptor, copying exactly
  \<open>tx_size\<close> bytes from the client buffer to the transmit slot of the channel and writing
  the command word to the transmit set register. Reading the slot afterwards gives the
  client's bytes; no other byte of the payload window changed; the copy stays inside the
  slot. Send is a terminating function with no wait in it. A \<open>NULL\<close> descriptor is
  rejected with \<open>-EINVAL\<close> and changes nothing.
\<close>

theorem send_copies_then_rings:
  fixes s :: mhu_state and link p b :: nat
  defines "idx \<equiv> index (channels s link)"
    and "d \<equiv> descs s p"
    and "out \<equiv> mhu_send_data link (Some p) s"
  assumes buf: "tx_buf (descs s p) = Some b"
    and size: "int (tx_size (descs s p)) \<le> PAYLOAD_MAX_SIZE"
  shows "result out = 0
    \<and> effects out = [Store_data link (Some p),
                      Copy_to_payload (TX_PAYLOAD idx) b (tx_size d),
                      Writel (cmd d) (TX_SET idx idx)]
    \<and> (\<forall>i < tx_size d. payload (after out) (TX_PAYLOAD idx + int i) = mem s (b + i))
    \<and> (\<forall>a. a \<notin> {TX_PAYLOAD idx ..< TX_PAYLOAD idx + int (tx_size d)}
          \<longrightarrow> payload (after out) a = payload s a)
    \<and> {TX_PAYLOAD idx ..< TX_PAYLOAD idx + int (tx_size d)} \<subseteq> payload_slot (TX_PAYLOAD idx)
    \<and> readl (mbox_regs (after out)) (TX_STATUS idx idx)
        = readl (mbox_regs s) (TX_STATUS idx idx) OR cmd d
    \<and> mem (after out) = mem s
    \<and> mhu_send_data link None s = (- EINVAL, [], s)"
proof -
  have "result out = 0"
    by (simp add: out_def mhu_send_data_Some result_def)
  moreover have "effects out = [Store_data link (Some p),
      Copy_to_payload (TX_PAYLOAD idx) b (tx_size d), Writel (cmd d) (TX_SET idx idx)]"
    using buf by (simp add: out_def mhu_send_data_Some effects_def idx_def d_def)
  moreover have pl: "payload (after out)
      = memcpy_to_payload (payload s) (TX_PAYLOAD idx) (mem s) b (tx_size d)"
    using buf by (simp add: out_def mhu_send_data_Some after_def idx_def d_def)
  moreover have "{TX_PAYLOAD idx ..< TX_PAYLOAD idx + int (tx_size d)} \<subseteq> payload_slot (TX_PAYLOAD idx)"
    using size by (auto simp: payload_slot_def d_def)
  moreover have "readl (mbox_regs (after out)) (TX_STATUS idx idx)
      = readl (mbox_regs s) (TX_STATUS idx idx) OR cmd d"
    by (simp add: out_def mhu_send_data_Some after_def idx_def d_def writel_set_status)
  moreover have "mem (after out) = mem s"
    by (simp add: out_def mhu_send_data_Some after_def)
  ultimately show ?thesis
    by (simp add: memcpy_to_payload_inside memcpy_to_payload_outside mhu_send_data_None)
qed

theorem send_copies_then_rings_witness:
  "tx_buf (descs ex_state 1) = Some 0x1000
    \<and> int (tx_size (descs ex_state 1)) \<le> PAYLOAD_MAX_SIZE
    \<and> result (mhu_send_data 0 (Some 1) ex_state) = 0
    \<and> effects (mhu_send_data 0 (Some 1) ex_state)
        = [Store_data 0 (Some 1), Copy_to_payload 0x200 0x1000 4, Writel 5 0x108]
    \<and> payload (after (mhu_send_data 0 (Some 1) ex_state)) 0x200 = 0x11
    \<and> payload (after (mhu_send_data 0 (Some 1) ex_state)) 0x203 = 0x44
    \<and> payload (after (mhu_send_data 0 (Some 1) ex_state)) 0x204 = 0
    \<and> readl (mbox_regs (after (mhu_send_data 0 (Some 1) ex_state))) 0x100 = 5"
proof -
  have h: "tx_buf (descs ex_state 1) = Some 0x1000"
    "int (tx_size (descs ex_state 1)) \<le> PAYLOAD_MAX_SIZE"
    by (simp_all add: ex_state_def ex_descs_def PAYLOAD_MAX_SIZE_def)
  from send_copies_then_rings [OF h, of 0] h show ?thesis
    by (simp add: outcome_defs mhu_send_data_Some ex_state_def ex_descs_def ex_mem_def
        ex_payload_def probe_chan_def payload_defs reg_defs readl_def writel_def
        memcpy_to_payload_def)
qed

text \<open>
  C1, counterexample: the descriptor at address 3 has a payload size of 0x201, above the
  maximum of 0x200. Send does not return \<open>-EINVAL\<close>: it returns 0, copies all 0x201 bytes,
  so that the first byte of the receive slot of channel 1 is overwritten, and rings the
  doorbell.
\<close>

theorem send_oversize_counterexample:
  "PAYLOAD_MAX_SIZE < int (tx_size (descs ex_state 3))
    \<and> result (mhu_send_data 0 (Some 3) ex_state) = 0
    \<and> result (mhu_send_data 0 (Some 3) ex_state) \<noteq> - EINVAL
    \<and> effects (mhu_send_data 0 (Some 3) ex_state)
        = [Store_data 0 (Some 3), Copy_to_payload 0x200 0x1000 0x201, Writel 1 0x108]
    \<and> payload ex_state (RX_PAYLOAD 1) = 0
    \<and> payload (after (mhu_send_data 0 (Some 3) ex_state)) (RX_PAYLOAD 1) = 0x55
    \<and> readl (mbox_regs ex_state) (TX_STATUS 0 0) = 0
    \<and> readl (mbox_regs (after (mhu_send_data 0 (Some 3) ex_state))) (TX_STATUS 0 0) = 1"
  by (simp add: outcome_defs mhu_send_data_Some ex_state_def ex_descs_def ex_mem_def
      ex_payload_def probe_chan_def payload_defs reg_defs readl_def writel_def
      memcpy_to_payload_def EINVAL_def)

text \<open>
  C1, as the driver behaves: Send has no check of the payload size. It returns \<open>-EINVAL\<close>
  exactly for a \<open>NULL\<close> descriptor, and then copies nothing, writes no register and
  leaves the state as it was. A descriptor whose payload size exceeds 0x200 is accepted
  like any other: Send returns 0, stores the descriptor, copies \<open>tx_size\<close> bytes to the
  transmit slot offset when a buffer is present, and writes the command word to the
  transmit set register.
\<close>

theorem send_rejects_only_null:
  fixes s :: mhu_state and link :: nat and msg :: "nat option"
  defines "idx \<equiv> index (channels s link)"
    and "out \<equiv> mhu_send_data link msg s"
  shows "(result out = - EINVAL \<longleftrightarrow> msg = None)
    \<and> (msg = None \<longrightarrow> effects out = [] \<and> after out = s)
    \<and> (\<forall>p. msg = Some p \<and> PAYLOAD_MAX_SIZE < int (tx_size (descs s p)) \<longrightarrow>
          result out = 0
        \<and> effects out
            = Store_data link (Some p)
              # (case tx_buf (descs s p) of None \<Rightarrow> []
                 | Some b \<Rightarrow> [Copy_to_payload (TX_PAYLOAD idx) b (tx_size (descs s p))])
              @ [Writel (cmd (descs s p)) (TX_SET idx idx)]
        \<and> (\<forall>b. tx_buf (descs s p) = Some b \<longrightarrow>
              payload (after out)
                = memcpy_to_payload (payload s) (TX_PAYLOAD idx) (mem s) b (tx_size (descs s p)))
        \<and> mbox_regs (after out) = writel (cmd (descs s p)) (TX_SET idx idx) (mbox_regs s))"
proof (cases msg)
  case None
  then show ?thesis
    by (simp add: out_def mhu_send_data_None outcome_defs)
next
  case (Some p)
  then show ?thesis
    unfolding out_def idx_def
    by (simp add: mhu_send_data_Some outcome_defs EINVAL_def)
qed

theorem send_rejects_only_null_witness:
  "PAYLOAD_MAX_SIZE < int (tx_size (descs ex_state 3))
    \<and> result (mhu_send_data 0 (Some 3) ex_state) = 0
    \<and> effects (mhu_send_data 0 (Some 3) ex_state)
        = [Store_data 0 (Some 3), Copy_to_payload 0x200 0x1000 0x201, Writel 1 0x108]
    \<and> result (mhu_send_data 0 None ex_state) = - EINVAL
    \<and> effects (mhu_send_data 0 None ex_state) = []
    \<and> after (mhu_send_data 0 None ex_state) = ex_state"
proof -
  have h: "PAYLOAD_MAX_SIZE < int (tx_size (descs ex_state 3))"
    by (simp add: ex_state_def ex_descs_def PAYLOAD_MAX_SIZE_def)
  from send_rejects_only_null [of 0 "Some 3" ex_state] send_rejects_only_null [of 0 None ex_state] h
  show ?thesis
    by (simp add: ex_state_def ex_descs_def probe_chan_def payload_defs reg_defs)
qed

text \<open>
  C10: every Send that returns 0 leaves the sent descriptor in the pending slot of its
  channel, whatever the slot held before. A later interrupt on the channel's line, with
  the receive status not zero (the peer may have changed registers, payload window and
  memory in between, but not the channels or the descriptors), takes the sent descriptor
  as the receive destination: it copies \<open>rx_size\<close> bytes of the receive slot into the
  descriptor's receive buffer and hands the descriptor to the client.
\<close>

theorem send_arms_receive:
  fixes s s2 :: mhu_state and link p b :: nat and msg :: "nat option"
  defines "idx \<equiv> index (channels s link)"
    and "s1 \<equiv> after (mhu_send_data link (Some p) s)"
    and "out \<equiv> mbox_handler (rx_irq (channels s link)) link s2"
  shows "result (mhu_send_data link (Some p) s) = 0
    \<and> pending_receive s1 link = Some p
    \<and> (result (mhu_send_data link msg s) = 0 \<longrightarrow>
          msg \<noteq> None \<and> pending_receive (after (mhu_send_data link msg s)) link = msg)
    \<and> (channels s2 = channels s1 \<and> descs s2 = descs s
          \<and> readl (mbox_regs s2) (RX_STATUS idx idx) \<noteq> 0
          \<and> rx_buf (descs s p) = Some b \<longrightarrow>
          result out = IRQ_HANDLED
        \<and> effects out = [Copy_from_payload b (RX_PAYLOAD idx) (rx_size (descs s p)),
                          Store_data link None,
                          Received_data link p,
                          Writel (- 1) (RX_CLEAR idx idx)]
        \<and> (\<forall>i < rx_size (descs s p).
              mem (after out) (b + i) = payload s2 (RX_PAYLOAD idx + int i))
        \<and> pending_receive (after out) link = None)"
proof -
  have r: "result (mhu_send_data link (Some p) s) = 0"
    by (simp add: mhu_send_data_Some result_def)
  have p1: "pending_receive s1 link = Some p"
    by (simp add: s1_def pending_after_send)
  have m: "result (mhu_send_data link msg s) = 0 \<longrightarrow>
      msg \<noteq> None \<and> pending_receive (after (mhu_send_data link msg s)) link = msg"
    by (cases msg) (simp_all add: mhu_send_data_None result_def EINVAL_def pending_after_send)
  have h: "result out = IRQ_HANDLED
      \<and> effects out = [Copy_from_payload b (RX_PAYLOAD idx) (rx_size (descs s p)),
                        Store_data link None, Received_data link p,
                        Writel (- 1) (RX_CLEAR idx idx)]
      \<and> (\<forall>i < rx_size (descs s p).
            mem (after out) (b + i) = payload s2 (RX_PAYLOAD idx + int i))
      \<and> pending_receive (after out) link = None"
    if ch: "channels s2 = channels s1" and de: "descs s2 = descs s"
      and st: "readl (mbox_regs s2) (RX_STATUS idx idx) \<noteq> 0"
      and buf: "rx_buf (descs s p) = Some b"
  proof -
    have c2: "channels s2 link = (channels s link)\<lparr>data := Some p\<rparr>"
      by (simp add: ch s1_def mhu_send_data_Some after_def)
    have dat: "data (channels s2 link) = Some p"
      and ix: "index (channels s2 link) = idx"
      and irq: "rx_irq (channels s link) = rx_irq (channels s2 link)"
      by (simp_all add: c2 idx_def)
    from st have st2: "readl (mbox_regs s2)
        (RX_STATUS (index (channels s2 link)) (index (channels s2 link))) \<noteq> 0"
      by (simp add: ix)
    note e = mbox_handler_Some [OF dat st2 irq]
    show ?thesis
      using buf
      by (simp add: out_def e outcome_defs de ix pending_receive_def memcpy_from_payload_inside)
  qed
  from r p1 m h show ?thesis
    by blast
qed

theorem send_arms_receive_witness:
  "result (mhu_send_data 0 (Some 1) ex_state) = 0
    \<and> pending_receive (after (mhu_send_data 0 (Some 1) ex_state)) 0 = Some 1
    \<and> channels ex_armed = channels (after (mhu_send_data 0 (Some 1) ex_state))
    \<and> descs ex_armed = descs ex_state
    \<and> readl (mbox_regs ex_armed) (RX_STATUS 0 0) = 1
    \<and> rx_buf (descs ex_state 1) = Some 0x2000
    \<and> effects (mbox_handler 32 0 ex_armed)
        = [Copy_from_payload 0x2000 0 4, Store_data 0 None, Received_data 0 1,
           Writel (- 1) 0x10]
    \<and> mem (after (mbox_handler 32 0 ex_armed)) 0x2000 = 0xDE
    \<and> pending_receive (after (mbox_handler 32 0 ex_armed)) 0 = None"
proof -
  have h: "channels ex_armed = channels (after (mhu_send_data 0 (Some 1) ex_state))"
    "descs ex_armed = descs ex_state"
    "rx_buf (descs ex_state 1) = Some 0x2000"
    by (simp_all add: ex_armed_def ex_state_def ex_descs_def mhu_send_data_Some after_def
        probe_chan_def)
  from send_arms_receive [of 0 1 ex_state None ex_armed "0x2000"] h show ?thesis
    by (simp add: outcome_defs mbox_handler_def mhu_send_data_Some ex_armed_def ex_state_def
        ex_descs_def ex_mem_def ex_payload_def probe_chan_def payload_defs reg_defs readl_def
        writel_def memcpy_from_payload_def pending_receive_def)
qed

section \<open>The interrupt handler\<close>

text \<open>
  C3: with a descriptor pending on the channel that names a destination buffer, the
  handler, called for the channel's interrupt line while the receive status is not zero,
  copies \<open>rx_size\<close> bytes (the size the descriptor declares for its destination) from the
  receive slot to the buffer, empties the pending slot, hands the descriptor to the
  client and writes all ones to the receive clear register, in that order; the receive
  status then reads zero.
\<close>

theorem handler_delivers:
  fixes s :: mhu_state and link p b :: nat
  defines "c \<equiv> channels s link"
    and "idx \<equiv> index (channels s link)"
    and "d \<equiv> descs s p"
    and "out \<equiv> mbox_handler (rx_irq (channels s link)) link s"
  assumes pending: "pending_receive s link = Some p"
    and buf: "rx_buf (descs s p) = Some b"
    and status: "readl (mbox_regs s) (RX_STATUS (index (channels s link)) (index (channels s link))) \<noteq> 0"
  shows "result out = IRQ_HANDLED
    \<and> effects out = [Copy_from_payload b (RX_PAYLOAD idx) (rx_size d),
                      Store_data link None,
                      Received_data link p,
                      Writel (- 1) (RX_CLEAR idx idx)]
    \<and> (\<forall>i < rx_size d. mem (after out) (b + i) = payload s (RX_PAYLOAD idx + int i))
    \<and> (\<forall>a. a \<notin> {b ..< b + rx_size d} \<longrightarrow> mem (after out) a = mem s a)
    \<and> pending_receive (after out) link = None
    \<and> readl (mbox_regs (after out)) (RX_STATUS idx idx) = 0
    \<and> payload (after out) = payload s"
proof -
  have dat: "data (channels s link) = Some p"
    using pending by (simp add: pending_receive_def)
  note h = mbox_handler_Some [OF dat status refl]
  have "result out = IRQ_HANDLED"
    by (simp add: out_def h result_def)
  moreover have "effects out = [Copy_from_payload b (RX_PAYLOAD idx) (rx_size d),
      Store_data link None, Received_data link p, Writel (- 1) (RX_CLEAR idx idx)]"
    using buf by (simp add: out_def h effects_def idx_def d_def)
  moreover have "mem (after out)
      = memcpy_from_payload (mem s) b (payload s) (RX_PAYLOAD idx) (rx_size d)"
    using buf by (simp add: out_def h after_def idx_def d_def)
  moreover have "pending_receive (after out) link = None"
    by (simp add: out_def h after_def pending_receive_def)
  moreover have "readl (mbox_regs (after out)) (RX_STATUS idx idx) = 0"
    by (simp add: out_def h after_def idx_def writel_rx_clear_status)
  moreover have "payload (after out) = payload s"
    by (simp add: out_def h after_def)
  ultimately show ?thesis
    by (simp add: memcpy_from_payload_inside memcpy_from_payload_outside)
qed



theorem handler_delivers_witness:
  "pending_receive ex_armed 0 = Some 1
    \<and> rx_buf (descs ex_armed 1) = Some 0x2000
    \<and> readl (mbox_regs ex_armed) (RX_STATUS 0 0) = 1
    \<and> result (mbox_handler 32 0 ex_armed) = IRQ_HANDLED
    \<and> effects (mbox_handler 32 0 ex_armed)
        = [Copy_from_payload 0x2000 0 4, Store_data 0 None, Received_data 0 1,
           Writel (- 1) 0x10]
    \<and> map (mem (after (mbox_handler 32 0 ex_armed))) [0x2000, 0x2001, 0x2002, 0x2003]
        = [0xDE, 0xAD, 0xBE, 0xEF]
    \<and> mem (after (mbox_handler 32 0 ex_armed)) 0x2004 = 0
    \<and> pending_receive (after (mbox_handler 32 0 ex_armed)) 0 = None
    \<and> readl (mbox_regs (after (mbox_handler 32 0 ex_armed))) (RX_STATUS 0 0) = 0"
proof -
  have h: "pending_receive ex_armed 0 = Some 1"
    "rx_buf (descs ex_armed 1) = Some 0x2000"
    "readl (mbox_regs ex_armed) (RX_STATUS (index (channels ex_armed 0)) (index (channels ex_armed 0))) \<noteq> 0"
    by (simp_all add: ex_armed_def ex_state_def ex_descs_def pending_receive_def probe_chan_def
        readl_def reg_defs)
  from handler_delivers [OF h] show ?thesis
    by (simp add: outcome_defs mbox_handler_def ex_armed_def ex_state_def ex_descs_def ex_mem_def
        ex_payload_def probe_chan_def payload_defs reg_defs readl_def writel_def
        memcpy_from_payload_def pending_receive_def)
qed

text \<open>
  C4: a spurious interrupt (the handler's own word for it, line 128: the receive status
  is not zero and the line is the channel's, but nothing is pending) is reported as
  \<open>IRQ_NONE\<close>, not handled by this channel; nothing is copied, no register is written
  and the state is unchanged.
\<close>

theorem handler_spurious:
  assumes "pending_receive s link = None"
    and "readl (mbox_regs s) (RX_STATUS (index (channels s link)) (index (channels s link))) \<noteq> 0"
    and "irq = rx_irq (channels s link)"
  shows "result (mbox_handler irq link s) = IRQ_NONE
    \<and> effects (mbox_handler irq link s) = []
    \<and> after (mbox_handler irq link s) = s"
  using assms by (simp add: mbox_handler_None pending_receive_def outcome_defs)

theorem handler_spurious_witness:
  "pending_receive ex_rung 0 = None
    \<and> readl (mbox_regs ex_rung) (RX_STATUS 0 0) = 1
    \<and> rx_irq (channels ex_rung 0) = 32
    \<and> mbox_handler 32 0 ex_rung = (IRQ_NONE, [], ex_rung)"
proof -
  have h: "pending_receive ex_rung 0 = None"
    "readl (mbox_regs ex_rung) (RX_STATUS (index (channels ex_rung 0)) (index (channels ex_rung 0))) \<noteq> 0"
    "rx_irq (channels ex_rung 0) = 32"
    by (simp_all add: ex_rung_def ex_state_def pending_receive_def probe_chan_def
        readl_def reg_defs)
  from handler_spurious [OF h(1,2) h(3) [symmetric]] h show ?thesis
    by (simp add: outcome_defs prod_eq_iff ex_rung_def ex_state_def probe_chan_def readl_def reg_defs)
qed

section \<open>Who writes the pending slot\<close>

text \<open>
  C2, counterexample: Send writes the pending slot (from empty to the sent descriptor),
  and Stop empties an occupied slot without any copy.
\<close>

theorem pending_receive_counterexample:
  "pending_receive ex_state 0 = None
    \<and> pending_receive (snd (run_op (Send 0 (Some 1)) ex_state)) 0 = Some 1
    \<and> pending_receive ex_armed 0 = Some 1
    \<and> pending_receive (snd (run_op (Stop 0) ex_armed)) 0 = None
    \<and> fst (run_op (Stop 0) ex_armed) = [Store_data 0 None, Free_irq 32 0]"
  by (simp add: mhu_send_data_Some mhu_shutdown_eq pending_receive_def ex_state_def ex_armed_def
      probe_chan_def)

text \<open>
  C2, as the driver behaves: along every sequence of operations, the pending slot of a
  link goes from empty to occupied only by a Send on that link, which stores the sent
  descriptor (the driver has no separate operation that arms a receive); it goes from
  occupied to empty only by Stop on that link, which copies nothing, or inside the
  interrupt handler of that link, where the store that empties the slot comes after the
  copy to the receive buffer (when the descriptor has one). Start and the poll never
  change it, and no operation on another link does.
\<close>

theorem pending_receive_writers:
  fixes ops :: "operation list" and s0 :: mhu_state and i k :: nat
  defines "s \<equiv> run (take i ops) s0"
    and "s' \<equiv> run (take (Suc i) ops) s0"
  defines "idx \<equiv> index (channels s k)"
  assumes i: "i < length ops"
  shows "(pending_receive s k = None \<and> pending_receive s' k \<noteq> None \<longrightarrow>
            (\<exists>p. ops ! i = Send k (Some p) \<and> pending_receive s' k = Some p))
    \<and> (\<forall>p. pending_receive s k = Some p \<and> pending_receive s' k = None \<longrightarrow>
            ops ! i = Stop k
              \<and> fst (run_op (ops ! i) s) = [Store_data k None, Free_irq (rx_irq (channels s k)) k]
          \<or> ops ! i = Interrupt (rx_irq (channels s k)) k
              \<and> readl (mbox_regs s) (RX_STATUS idx idx) \<noteq> 0
              \<and> fst (run_op (ops ! i) s)
                  = (case rx_buf (descs s p) of None \<Rightarrow> []
                     | Some b \<Rightarrow> [Copy_from_payload b (RX_PAYLOAD idx) (rx_size (descs s p))])
                    @ [Store_data k None, Received_data k p, Writel (- 1) (RX_CLEAR idx idx)])
    \<and> (pending_receive s' k \<noteq> pending_receive s k \<longrightarrow>
            (\<exists>p. ops ! i = Send k (Some p)) \<or> ops ! i = Stop k
          \<or> (\<exists>irq. ops ! i = Interrupt irq k))"
proof -
  have step: "s' = snd (run_op (ops ! i) s)"
    using i by (simp add: s_def s'_def run_take_Suc)
  show ?thesis
    unfolding step idx_def
    using pending_set_by_send [of s k "ops ! i"] pending_cleared_by [of s k _ "ops ! i"]
      pending_changed_by [of "ops ! i" s k]
    by blast
qed

theorem pending_receive_writers_witness:
  "pending_receive (run (take 0 [Send 0 (Some 1), Interrupt 32 0, Stop 0]) ex_rung) 0 = None
    \<and> pending_receive (run (take 1 [Send 0 (Some 1), Interrupt 32 0, Stop 0]) ex_rung) 0 = Some 1
    \<and> [Send 0 (Some 1), Interrupt 32 0, Stop 0] ! 0 = Send 0 (Some 1)
    \<and> pending_receive (run (take 2 [Send 0 (Some 1), Interrupt 32 0, Stop 0]) ex_rung) 0 = None
    \<and> [Send 0 (Some 1), Interrupt 32 0, Stop 0] ! 1 = Interrupt 32 0
    \<and> fst (run_op (Interrupt 32 0) (run (take 1 [Send 0 (Some 1), Interrupt 32 0, Stop 0]) ex_rung))
        = [Copy_from_payload 0x2000 0 4, Store_data 0 None, Received_data 0 1, Writel (- 1) 0x10]"
proof -
  have len: "0 < length [Send 0 (Some 1), Interrupt 32 0, Stop 0]"
    "1 < length [Send 0 (Some 1), Interrupt 32 0, Stop 0]"
    by simp_all
  have t: "take 2 [Send 0 (Some 1), Interrupt 32 0, Stop 0] = [Send 0 (Some 1), Interrupt 32 0]"
    "take 1 [Send 0 (Some 1), Interrupt 32 0, Stop 0] = [Send 0 (Some 1)]"
    by (simp_all add: numeral_2_eq_2)
  from pending_receive_writers [OF len(1), of ex_rung 0]
    pending_receive_writers [OF len(2), of ex_rung 0]
  show ?thesis
    by (simp add: t mhu_send_data_Some mbox_handler_def ex_rung_def ex_state_def ex_descs_def
        probe_chan_def payload_defs reg_defs readl_def writel_def pending_receive_def)
qed

section \<open>The transmit poll\<close>

text \<open>
  C6, counterexample: a Send whose command word is 0 sets no bit of the transmit status,
  so the poll right after it still returns true.
\<close>

theorem last_tx_done_counterexample:
  "result (mhu_send_data 0 (Some 2) ex_state) = 0
    \<and> cmd (descs ex_state 2) = 0
    \<and> effects (mhu_send_data 0 (Some 2) ex_state) = [Store_data 0 (Some 2), Writel 0 (TX_SET 0 0)]
    \<and> mhu_last_tx_done 0 (after (mhu_send_data 0 (Some 2) ex_state))"
  by (simp add: mhu_last_tx_done_eq mhu_send_data_Some outcome_defs ex_state_def ex_descs_def
      probe_chan_def readl_def writel_def reg_defs)

text \<open>
  C6, as the driver behaves: the poll returns true exactly when the transmit status
  register of the channel reads zero; it only reads, so it changes no state, and it has
  no loop or wait. Right after a Send it returns false if the command word is not zero
  (exactly: it returns true only if the command word is zero and the status was zero
  before), and it returns true once the peer has cleared every bit that is set in the
  transmit status.
\<close>

theorem last_tx_done_poll:
  fixes s :: mhu_state and link p :: nat and v :: u32
  defines "idx \<equiv> index (channels s link)"
    and "s1 \<equiv> after (mhu_send_data link (Some p) s)"
  shows "(mhu_last_tx_done link s \<longleftrightarrow> readl (mbox_regs s) (TX_STATUS idx idx) = 0)
    \<and> run_op (LastTransmitDone link) s = ([], s)
    \<and> (cmd (descs s p) \<noteq> 0 \<longrightarrow> \<not> mhu_last_tx_done link s1)
    \<and> (mhu_last_tx_done link s1 \<longleftrightarrow>
          readl (mbox_regs s) (TX_STATUS idx idx) = 0 \<and> cmd (descs s p) = 0)
    \<and> (mhu_last_tx_done link (peer_clear_tx idx v s1) \<longleftrightarrow>
          readl (mbox_regs s1) (TX_STATUS idx idx) AND NOT v = 0)
    \<and> mhu_last_tx_done link (peer_clear_tx idx (readl (mbox_regs s1) (TX_STATUS idx idx)) s1)"
proof -
  have ix: "index (channels s1 link) = idx"
    by (simp add: s1_def idx_def mhu_send_data_Some after_def)
  have a: "mhu_last_tx_done link s \<longleftrightarrow> readl (mbox_regs s) (TX_STATUS idx idx) = 0"
    by (simp add: mhu_last_tx_done_eq idx_def)
  have b: "mhu_last_tx_done link s1 \<longleftrightarrow>
      readl (mbox_regs s) (TX_STATUS idx idx) = 0 \<and> cmd (descs s p) = 0"
    by (simp add: s1_def idx_def last_tx_done_after_send)
  have c: "mhu_last_tx_done link (peer_clear_tx idx w s1) \<longleftrightarrow>
      readl (mbox_regs s1) (TX_STATUS idx idx) AND NOT w = 0" for w
    using last_tx_done_after_peer_clear [of link s1 w] by (simp add: ix)
  have d: "mhu_last_tx_done link (peer_clear_tx idx (readl (mbox_regs s1) (TX_STATUS idx idx)) s1)"
    by (simp add: c)
  from a b c [of v] d show ?thesis
    by simp
qed

theorem last_tx_done_poll_witness:
  "cmd (descs ex_state 1) = 5
    \<and> mhu_last_tx_done 0 ex_state
    \<and> \<not> mhu_last_tx_done 0 (after (mhu_send_data 0 (Some 1) ex_state))
    \<and> readl (mbox_regs (after (mhu_send_data 0 (Some 1) ex_state))) (TX_STATUS 0 0) = 5
    \<and> mhu_last_tx_done 0 (peer_clear_tx 0 5 (after (mhu_send_data 0 (Some 1) ex_state)))"
proof -
  have h: "cmd (descs ex_state 1) = 5" "index (channels ex_state 0) = 0"
    by (simp_all add: ex_state_def ex_descs_def probe_chan_def)
  from last_tx_done_poll [of 0 ex_state 1 5] h show ?thesis
    by (simp add: mhu_last_tx_done_eq peer_clear_tx_def mhu_send_data_Some after_def ex_state_def
        ex_descs_def probe_chan_def readl_def writel_def reg_defs)
qed

section \<open>Stop and Start\<close>

text \<open>
  C9: Stop returns no error; it empties the pending slot without a copy and frees the
  channel's interrupt line, and changes nothing else, which leaves the channel exactly as
  \<open>mhu_probe\<close> constructed it. On a started channel the state after Stop is the state with
  a freshly constructed channel whose line is unclaimed, so a following Start succeeds
  and every Send and interrupt after it gives what it gives after Start on the freshly
  constructed channel; nothing is pending.
\<close>

theorem stop_then_start:
  fixes s :: mhu_state and link :: nat
  defines "c \<equiv> channels s link"
  defines "fresh \<equiv> s\<lparr>channels := (channels s)(link := probe_chan (index c) (rx_irq c)),
                      irq_table := (irq_table s)(rx_irq c := None)\<rparr>"
    and "stopped \<equiv> snd (mhu_shutdown link s)"
  shows "fst (mhu_shutdown link s) = [Store_data link None, Free_irq (rx_irq c) link]
    \<and> channels stopped link = probe_chan (index c) (rx_irq c)
    \<and> pending_receive stopped link = None
    \<and> irq_table stopped (rx_irq c) \<noteq> Some link
    \<and> mem stopped = mem s \<and> payload stopped = payload s \<and> mbox_regs stopped = mbox_regs s
    \<and> (irq_table s (rx_irq c) = Some link \<longrightarrow>
          stopped = fresh
        \<and> mhu_startup link stopped
            = (0, [Request_irq (rx_irq c) link],
               s\<lparr>channels := (channels s)(link := probe_chan (index c) (rx_irq c))\<rparr>)
        \<and> mhu_startup link stopped = mhu_startup link fresh
        \<and> pending_receive (after (mhu_startup link stopped)) link = None
        \<and> (\<forall>msg irq.
              mhu_send_data link msg (after (mhu_startup link stopped))
                = mhu_send_data link msg (after (mhu_startup link fresh))
            \<and> mbox_handler irq link (after (mhu_send_data link msg (after (mhu_startup link stopped))))
                = mbox_handler irq link (after (mhu_send_data link msg (after (mhu_startup link fresh))))))"
proof -
  have ch: "c\<lparr>data := None\<rparr> = probe_chan (index c) (rx_irq c)"
    by (simp add: probe_chan_def)
  have st: "stopped = s\<lparr>channels := (channels s)(link := probe_chan (index c) (rx_irq c)),
                        irq_table := free_irq (rx_irq c) link (irq_table s)\<rparr>"
    by (simp add: stopped_def mhu_shutdown_eq ch c_def [symmetric])
  have a: "fst (mhu_shutdown link s) = [Store_data link None, Free_irq (rx_irq c) link]"
    by (simp add: mhu_shutdown_eq c_def)
  have b: "channels stopped link = probe_chan (index c) (rx_irq c)"
    "pending_receive stopped link = None"
    "irq_table stopped (rx_irq c) \<noteq> Some link"
    "mem stopped = mem s" "payload stopped = payload s" "mbox_regs stopped = mbox_regs s"
    by (simp_all add: st pending_receive_def probe_chan_def free_irq_def)
  have d: "stopped = fresh
      \<and> mhu_startup link stopped
          = (0, [Request_irq (rx_irq c) link],
             s\<lparr>channels := (channels s)(link := probe_chan (index c) (rx_irq c))\<rparr>)
      \<and> pending_receive (after (mhu_startup link stopped)) link = None"
    if started: "irq_table s (rx_irq c) = Some link"
  proof -
    have e: "stopped = fresh"
      using started by (simp add: st fresh_def free_irq_def)
    have f: "(irq_table s)(rx_irq c := Some link) = irq_table s"
      using started by (simp add: fun_upd_idem)
    have "mhu_startup link fresh
        = (0, [Request_irq (rx_irq c) link],
           s\<lparr>channels := (channels s)(link := probe_chan (index c) (rx_irq c))\<rparr>)"
      by (simp add: mhu_startup_eq fresh_def probe_chan_def f)
    then show ?thesis
      by (simp add: e after_def pending_receive_def probe_chan_def)
  qed
  from a b d show ?thesis
    by auto
qed

theorem stop_then_start_witness:
  "irq_table ex_armed (rx_irq (channels ex_armed 0)) = Some 0
    \<and> pending_receive ex_armed 0 = Some 1
    \<and> fst (mhu_shutdown 0 ex_armed) = [Store_data 0 None, Free_irq 32 0]
    \<and> pending_receive (snd (mhu_shutdown 0 ex_armed)) 0 = None
    \<and> irq_table (snd (mhu_shutdown 0 ex_armed)) 32 = None
    \<and> mem (snd (mhu_shutdown 0 ex_armed)) = mem ex_armed
    \<and> result (mhu_startup 0 (snd (mhu_shutdown 0 ex_armed))) = 0
    \<and> channels (after (mhu_startup 0 (snd (mhu_shutdown 0 ex_armed)))) 0 = probe_chan 0 32
    \<and> irq_table (after (mhu_startup 0 (snd (mhu_shutdown 0 ex_armed)))) 32 = Some 0"
proof -
  have h: "irq_table ex_armed (rx_irq (channels ex_armed 0)) = Some 0"
    by (simp add: ex_armed_def probe_chan_def)
  from stop_then_start [of 0 ex_armed] h show ?thesis
    by (simp add: outcome_defs mhu_shutdown_eq mhu_startup_eq free_irq_def ex_armed_def ex_state_def
        probe_chan_def pending_receive_def)
qed

end
